theory Spec2Isabelle
  imports Main
begin

section \<open>JavaScript values and objects\<close>

text \<open>
  The values a configuration field or a patch field can hold. A field that is absent from
  an object reads as \<open>JUndefined\<close>, and a field can also hold \<open>undefined\<close>
  explicitly.
\<close>

datatype jsval = JUndefined | JBool bool | JString string

text \<open>JavaScript truthiness, as the conditions \<open>if (arg.discordRPC)\<close> and
  \<open>... && store.get("config").minimiseToTray\<close> apply it.\<close>

fun truthy :: "jsval \<Rightarrow> bool" where
  "truthy JUndefined = False"
| "truthy (JBool b) = b"
| "truthy (JString s) = (s \<noteq> [])"

text \<open>A plain object (\<open>ConfigData\<close>, \<open>Partial<ConfigData>\<close>): its own
  properties by name.\<close>

type_synonym jsobject = "string \<rightharpoonup> jsval"

text \<open>Property read \<open>obj.k\<close>.\<close>

definition get_prop :: "jsobject \<Rightarrow> string \<Rightarrow> jsval" where
  "get_prop obj k = (case obj k of None \<Rightarrow> JUndefined | Some v \<Rightarrow> v)"

text \<open>Object spread \<open>{...a, ...b}\<close>: the properties of \<open>a\<close>, then those of
  \<open>b\<close> written over them.\<close>

definition spread :: "jsobject \<Rightarrow> jsobject \<Rightarrow> jsobject" where
  "spread a b = (\<lambda>k. case b k of None \<Rightarrow> a k | Some v \<Rightarrow> Some v)"

text \<open>\<open>s.startsWith(p)\<close>.\<close>

definition startsWith :: "string \<Rightarrow> string \<Rightarrow> bool" where
  "startsWith s p = (take (length p) s = p)"

section \<open>Errors\<close>

text \<open>
  \<open>ObjectDestroyed\<close>: a method of a destroyed \<open>BrowserWindow\<close> throws
  (\<open>TypeError: Object has been destroyed\<close>).
  \<open>InvalidURL\<close>: \<open>new URL(s)\<close> throws on a string that does not parse.
\<close>

datatype error = ObjectDestroyed | InvalidURL

definition and_then :: "error + 'a \<Rightarrow> ('a \<Rightarrow> error + 'b) \<Rightarrow> error + 'b" where
  "and_then r f = (case r of Inl e \<Rightarrow> Inl e | Inr x \<Rightarrow> f x)"

section \<open>The state of the main process\<close>

text \<open>The main window: what \<open>isVisible()\<close>, \<open>isFocused()\<close> and
  \<open>isDestroyed()\<close> report, the \<open>frame\<close> option it was constructed with and
  the URL it was told to load.\<close>

record window =
  visible :: bool
  focused :: bool
  destroyed :: bool
  frameOption :: jsval
  loadedURL :: string

datatype item_type = Normal | Separator

text \<open>The two \<open>click\<close> callbacks of the tray menu template.\<close>

datatype click_action = ToggleClick | QuitClick

record menu_item =
  label :: string
  itemType :: item_type
  enabled :: bool
  click :: "click_action option"

record relaunch_options =
  args :: "string list"
  execPath :: string

text \<open>
  Calls that leave the main process, in the order they are made: the presence
  integration (\<open>connectRPC\<close>, \<open>dropRPC\<close>), the persisted store
  (\<open>store.set("config", v)\<close>), \<open>App.relaunch(options)\<close>, \<open>App.quit()\<close>
  and \<open>shell.openExternal(url)\<close>.
\<close>

datatype effect =
    ConnectRPC
  | DropRPC
  | StoreSet jsobject
  | AppRelaunch relaunch_options
  | AppQuit
  | OpenExternal string

text \<open>
  \<open>shouldRelaunch\<close>, \<open>shouldQuit\<close>: the two flags of \<open>AppInterface\<close>.
  \<open>storeConfig\<close>: the value under the key \<open>"config"\<close> of the store.
  \<open>initialConfig\<close>: the constant of that name that \<open>createWindow\<close> captures.
  \<open>trayMenu\<close>: the template last given to \<open>tray.setContextMenu\<close>.
  \<open>immediates\<close>: the callbacks queued by \<open>setImmediate\<close> and not yet run;
  each one opens its URL externally.
  \<open>ipcListeners\<close>: how many listeners each channel of \<open>ipcMain\<close> has. The calls
  \<open>ipcMain.on(...)\<close> stand in the body of \<open>createWindow\<close>, so every call of
  \<open>createWindow\<close> adds one listener to every channel, and none is ever removed.
\<close>

record app_state =
  shouldRelaunch :: bool
  shouldQuit :: bool
  storeConfig :: jsobject
  initialConfig :: jsobject
  mainWindow :: window
  trayMenu :: "menu_item list"
  effects :: "effect list"
  immediates :: "string list"
  ipcListeners :: nat

text \<open>What the handlers read of the process: \<open>process.argv\<close>,
  \<open>process.execPath\<close>, \<open>process.env.APPIMAGE\<close>, \<open>process.platform\<close>
  and \<open>App.isPackaged\<close>.\<close>

record process =
  argv :: "string list"
  processExecPath :: string
  envAPPIMAGE :: "string option"
  platform :: string
  isPackaged :: bool

definition emit :: "effect \<Rightarrow> app_state \<Rightarrow> app_state" where
  "emit e s = s\<lparr>effects := effects s @ [e]\<rparr>"

section \<open>Collaborators outside src/\<close>

text \<open>Modelled from the spec: \<open>lib/config\<close> is not part of the sources. The spec
  treats it as a synchronous key-value store: \<open>store.get("config")\<close> returns the
  value last stored, \<open>store.set("config", v)\<close> replaces it, and \<open>getConfig()\<close>
  is a view of the persisted settings.\<close>

definition store_get :: "app_state \<Rightarrow> jsobject" where
  "store_get s = storeConfig s"

definition store_set :: "jsobject \<Rightarrow> app_state \<Rightarrow> app_state" where
  "store_set v s = emit (StoreSet v) (s\<lparr>storeConfig := v\<rparr>)"

definition getConfig :: "app_state \<Rightarrow> jsobject" where
  "getConfig s = storeConfig s"

text \<open>Modelled from the spec: \<open>lib/discordRPC\<close> is not part of the sources. The
  spec gives \<open>connectRPC()\<close> and \<open>dropRPC()\<close> as fire-and-forget calls with no
  result; the model records each call.\<close>

definition connectRPC :: "app_state \<Rightarrow> app_state" where
  "connectRPC s = emit ConnectRPC s"

definition dropRPC :: "app_state \<Rightarrow> app_state" where
  "dropRPC s = emit DropRPC s"

section \<open>The window's methods\<close>

text \<open>
  The methods of \<open>BrowserWindow\<close> that the handlers call. Each throws on a destroyed
  window. \<open>show()\<close> shows the window, gives it focus and emits \<open>show\<close>;
  \<open>hide()\<close> hides it and emits \<open>hide\<close>; \<open>focus()\<close> gives it focus. The
  listeners of \<open>show\<close> and \<open>hide\<close> registered by \<open>createWindow\<close> both
  call \<open>buildMenu\<close>.
\<close>

definition isVisible :: "app_state \<Rightarrow> error + bool" where
  "isVisible s =
     (if destroyed (mainWindow s) then Inl ObjectDestroyed else Inr (visible (mainWindow s)))"

definition isFocused :: "app_state \<Rightarrow> error + bool" where
  "isFocused s =
     (if destroyed (mainWindow s) then Inl ObjectDestroyed else Inr (focused (mainWindow s)))"

text \<open>\<open>buildMenu\<close>: the whole template is replaced; only the label of the third item
  depends on the state.\<close>

definition menuTemplate :: "bool \<Rightarrow> menu_item list" where
  "menuTemplate v =
     [\<lparr>label = ''Revolt'', itemType = Normal, enabled = False, click = None\<rparr>,
      \<lparr>label = ''---'', itemType = Separator, enabled = True, click = None\<rparr>,
      \<lparr>label = (if v then ''Hide Revolt'' else ''Show Revolt''), itemType = Normal,
        enabled = True, click = Some ToggleClick\<rparr>,
      \<lparr>label = ''Quit Revolt'', itemType = Normal, enabled = True,
        click = Some QuitClick\<rparr>]"

definition buildMenu :: "app_state \<Rightarrow> error + app_state" where
  "buildMenu s = and_then (isVisible s) (\<lambda>v. Inr (s\<lparr>trayMenu := menuTemplate v\<rparr>))"

definition win_show :: "app_state \<Rightarrow> error + app_state" where
  "win_show s =
     (if destroyed (mainWindow s) then Inl ObjectDestroyed
      else buildMenu (s\<lparr>mainWindow := (mainWindow s)\<lparr>visible := True, focused := True\<rparr>\<rparr>))"

definition win_hide :: "app_state \<Rightarrow> error + app_state" where
  "win_hide s =
     (if destroyed (mainWindow s) then Inl ObjectDestroyed
      else buildMenu (s\<lparr>mainWindow := (mainWindow s)\<lparr>visible := False, focused := False\<rparr>\<rparr>))"

definition win_focus :: "app_state \<Rightarrow> error + app_state" where
  "win_focus s =
     (if destroyed (mainWindow s) then Inl ObjectDestroyed
      else Inr (s\<lparr>mainWindow := (mainWindow s)\<lparr>focused := True\<rparr>\<rparr>))"

section \<open>Teardown: the listener of window-all-closed\<close>

text \<open>
  \<open>App.isPackaged && process.env.APPIMAGE\<close>: the variable is a string or is not set,
  and a string is truthy when it is not empty.
\<close>

definition appimage :: "process \<Rightarrow> bool" where
  "appimage p = (isPackaged p \<and> (case envAPPIMAGE p of None \<Rightarrow> False | Some a \<Rightarrow> a \<noteq> []))"

text \<open>The \<open>options\<close> handed to \<open>App.relaunch\<close>: built from the process, then
  changed in place when the application runs from an AppImage (\<open>execPath\<close> is
  assigned, then \<open>unshift\<close> puts the flag in front of \<open>args\<close>).\<close>

definition relaunchOptions :: "process \<Rightarrow> relaunch_options" where
  "relaunchOptions p =
     (let options = \<lparr>args = drop 1 (argv p) @ [''--relaunch''], execPath = processExecPath p\<rparr>
      in if appimage p
         then options\<lparr>execPath := (case envAPPIMAGE p of Some a \<Rightarrow> a | None \<Rightarrow> execPath options),
                      args := ''--appimage-extract-and-run'' # args options\<rparr>
         else options)"

definition window_all_closed :: "process \<Rightarrow> app_state \<Rightarrow> app_state" where
  "window_all_closed p s =
     (if shouldRelaunch s then emit AppQuit (emit (AppRelaunch (relaunchOptions p)) s)
      else if platform p \<noteq> ''darwin'' then emit AppQuit s
      else s)"

section \<open>The window's close\<close>

text \<open>The listener of \<open>close\<close>: the result says whether it called
  \<open>event.preventDefault()\<close>.\<close>

definition close_handler :: "app_state \<Rightarrow> error + (bool \<times> app_state)" where
  "close_handler s =
     (if \<not> shouldQuit s \<and> \<not> shouldRelaunch s \<and> truthy (get_prop (store_get s) ''minimiseToTray'')
      then and_then (win_hide s) (\<lambda>s'. Inr (True, s'))
      else Inr (False, s))"

text \<open>
  \<open>mainWindow.close()\<close>: the window emits \<open>close\<close>; when no listener prevented
  the default, the window is destroyed, and since the application has no other window,
  \<open>window-all-closed\<close> follows.
\<close>

definition win_close :: "process \<Rightarrow> app_state \<Rightarrow> error + app_state" where
  "win_close p s =
     (if destroyed (mainWindow s) then Inl ObjectDestroyed
      else and_then (close_handler s) (\<lambda>(prevented, s').
        if prevented then Inr s'
        else Inr (window_all_closed p
               (s'\<lparr>mainWindow := (mainWindow s')\<lparr>visible := False, focused := False,
                     destroyed := True\<rparr>\<rparr>))))"

section \<open>Inter-process commands\<close>

text \<open>The bodies of the listeners of \<open>set\<close>, \<open>relaunch\<close> and \<open>close\<close>.\<close>

definition ipc_set :: "jsobject \<Rightarrow> app_state \<Rightarrow> app_state" where
  "ipc_set arg s =
     (let s1 = (if get_prop arg ''discordRPC'' \<noteq> JUndefined
                then (if truthy (get_prop arg ''discordRPC'') then connectRPC s else dropRPC s)
                else s)
      in store_set (spread (store_get s1) arg) s1)"

definition ipc_relaunch :: "process \<Rightarrow> app_state \<Rightarrow> error + app_state" where
  "ipc_relaunch p s = win_close p (s\<lparr>shouldRelaunch := True\<rparr>)"

definition ipc_close :: "process \<Rightarrow> app_state \<Rightarrow> error + app_state" where
  "ipc_close p s = win_close p s"

text \<open>
  A \<open>set\<close> message from the page: \<open>ipcMain\<close> calls the listeners of the channel
  one after the other, in the order they were added. All of them have the body above,
  which reads nothing of the window they were created with.
\<close>

definition send_set :: "jsobject \<Rightarrow> app_state \<Rightarrow> app_state" where
  "send_set arg s = (ipc_set arg ^^ ipcListeners s) s"

section \<open>The tray\<close>

definition tray_click :: "app_state \<Rightarrow> error + app_state" where
  "tray_click s =
     and_then (isVisible s) (\<lambda>v.
       if v then and_then (isFocused s) (\<lambda>f. if f then win_hide s else win_focus s)
       else win_show s)"

text \<open>The \<open>click\<close> of the toggle item of the menu.\<close>

definition toggle_click :: "app_state \<Rightarrow> error + app_state" where
  "toggle_click s = and_then (isVisible s) (\<lambda>v. if v then win_hide s else win_show s)"

section \<open>Window creation\<close>

text \<open>
  \<open>createWindow\<close>, as far as the state above records it: the configuration is read
  once into \<open>initialConfig\<close>, the window is constructed with \<open>frame\<close> taken from
  it (a new window is shown and focused), the build URL is loaded, one listener is
  added to every channel of \<open>ipcMain\<close>, and the tray menu is built once. The build
  URL is the result of \<open>getBuildURL()\<close> of \<open>lib/config\<close>, which is not part of
  the sources; it is a parameter.
\<close>

definition createWindow :: "string \<Rightarrow> app_state \<Rightarrow> error + app_state" where
  "createWindow buildURL s =
     (let initial = getConfig s
      in buildMenu
           (s\<lparr>initialConfig := initial,
              mainWindow := \<lparr>visible = True, focused = True, destroyed = False,
                             frameOption = get_prop initial ''frame'', loadedURL = buildURL\<rparr>,
              ipcListeners := Suc (ipcListeners s)\<rparr>))"

text \<open>
  The listener of \<open>activate\<close>, added once when the application is ready:
  \<open>if (BrowserWindow.getAllWindows().length === 0) createWindow()\<close>. The main window
  is the only window there is, so the test holds when it has been destroyed.
\<close>

definition activate :: "string \<Rightarrow> app_state \<Rightarrow> error + app_state" where
  "activate buildURL s = (if destroyed (mainWindow s) then createWindow buildURL s else Inr s)"

section \<open>Navigation handlers\<close>


datatype window_open_action = Deny | Allow

definition windowOpenHandler :: "string \<Rightarrow> app_state \<Rightarrow> window_open_action \<times> app_state" where
  "windowOpenHandler url s =
     (Deny,
      if startsWith url ''http:'' \<or> startsWith url ''https:'' \<or> startsWith url ''mailto:''
      then s\<lparr>immediates := immediates s @ [url]\<rparr>
      else s)"

text \<open>One turn of the event loop: the queued callbacks run in order.\<close>

definition run_immediates :: "app_state \<Rightarrow> app_state" where
  "run_immediates s = foldl (\<lambda>t url. emit (OpenExternal url) t) (s\<lparr>immediates := []\<rparr>) (immediates s)"

section \<open>Notions used to state the properties\<close>

text \<open>The scheme of a URL as it is written: the text before the first colon. The
  handlers receive URLs that the browser has resolved, with the scheme in lower case.\<close>

definition url_scheme :: "string \<Rightarrow> string option" where
  "url_scheme u =
     (if CHR '':'' \<in> set u then Some (takeWhile (\<lambda>c. c \<noteq> CHR '':'') u) else None)"







text \<open>The process before \<open>createWindow\<close> has run: both flags false, \<open>cfg\<close> in
  the store, no window yet (a call on it throws), nothing called, nothing queued and no
  listener added.\<close>

definition startup :: "jsobject \<Rightarrow> app_state" where
  "startup cfg =
     \<lparr>shouldRelaunch = False, shouldQuit = False, storeConfig = cfg,
      initialConfig = Map.empty,
      mainWindow = \<lparr>visible = False, focused = False, destroyed = True,
                     frameOption = JUndefined, loadedURL = []\<rparr>,
      trayMenu = [], effects = [], immediates = [], ipcListeners = 0\<rparr>"

text \<open>What shows or hides the window while it lives: the window's own \<open>show()\<close> and
  \<open>hide()\<close>, a click on the tray icon and a click on the toggle item of the menu.\<close>

datatype transition = WindowShow | WindowHide | TrayClick | ToggleItemClick

fun transition_step :: "transition \<Rightarrow> app_state \<Rightarrow> error + app_state" where
  "transition_step WindowShow s = win_show s"
| "transition_step WindowHide s = win_hide s"
| "transition_step TrayClick s = tray_click s"
| "transition_step ToggleItemClick s = toggle_click s"

fun run_transitions :: "transition list \<Rightarrow> app_state \<Rightarrow> error + app_state" where
  "run_transitions [] s = Inr s"
| "run_transitions (t # ts) s = and_then (transition_step t s) (run_transitions ts)"

text \<open>The calls of the presence integration among the calls made so far, in order.\<close>

fun is_rpc_call :: "effect \<Rightarrow> bool" where
  "is_rpc_call ConnectRPC = True"
| "is_rpc_call DropRPC = True"
| "is_rpc_call _ = False"

definition rpc_calls :: "app_state \<Rightarrow> effect list" where
  "rpc_calls s = filter is_rpc_call (effects s)"

text \<open>The labels of the toggle items of the tray menu (the template has one).\<close>

definition toggle_labels :: "app_state \<Rightarrow> string list" where
  "toggle_labels s = map label (filter (\<lambda>i. click i = Some ToggleClick) (trayMenu s))"

section \<open>The set command\<close>

lemma effects_ipc_set:
  "effects (ipc_set arg s) =
     effects s @
     (if get_prop arg ''discordRPC'' = JUndefined then []
      else if truthy (get_prop arg ''discordRPC'') then [ConnectRPC] else [DropRPC]) @
     [StoreSet (spread (storeConfig s) arg)]"
  by (simp add: ipc_set_def Let_def store_set_def store_get_def emit_def connectRPC_def
      dropRPC_def)

lemma storeConfig_ipc_set: "storeConfig (ipc_set arg s) = spread (storeConfig s) arg"
  by (simp add: ipc_set_def Let_def store_set_def store_get_def emit_def connectRPC_def
      dropRPC_def)

lemma ipc_set_keeps_rest:
  "shouldQuit (ipc_set arg s) = shouldQuit s \<and> shouldRelaunch (ipc_set arg s) = shouldRelaunch s \<and>
   mainWindow (ipc_set arg s) = mainWindow s \<and> initialConfig (ipc_set arg s) = initialConfig s \<and>
   trayMenu (ipc_set arg s) = trayMenu s"
  by (simp add: ipc_set_def Let_def store_set_def store_get_def emit_def connectRPC_def
      dropRPC_def)

text \<open>
  C6. After \<open>set\<close> with a patch, the persisted configuration is the old one with the
  patch merged in: a key of the patch has the patch's value, and every other key has the
  value it had before.
\<close>

theorem ipc_set_merges_patch:
  "storeConfig (ipc_set arg s) k =
     (case arg k of Some v \<Rightarrow> Some v | None \<Rightarrow> storeConfig s k)"
  by (simp add: storeConfig_ipc_set spread_def)

text \<open>A patch that names one key leaves the other keys as they were.\<close>

lemma ipc_set_example:
  "get_prop (storeConfig (ipc_set [''minimiseToTray'' \<mapsto> JBool True]
      (startup [''frame'' \<mapsto> JBool True, ''minimiseToTray'' \<mapsto> JBool False]))) ''frame'' =
     JBool True \<and>
   get_prop (storeConfig (ipc_set [''minimiseToTray'' \<mapsto> JBool True]
      (startup [''frame'' \<mapsto> JBool True, ''minimiseToTray'' \<mapsto> JBool False])))
      ''minimiseToTray'' = JBool True"
  by (simp add: storeConfig_ipc_set spread_def get_prop_def startup_def)

lemma ipcListeners_ipc_set: "ipcListeners (ipc_set arg s) = ipcListeners s"
  by (simp add: ipc_set_def Let_def store_set_def store_get_def emit_def connectRPC_def
      dropRPC_def)

text \<open>While the channel has one listener, that is, after the first \<open>createWindow\<close>
  and before any other, \<open>set({discordRPC: true})\<close> followed by
  \<open>set({discordRPC: false})\<close> connects once, then disconnects once, each before the
  store is written for its command, and the persisted \<open>discordRPC\<close> ends as
  \<open>false\<close>.\<close>

lemma set_on_then_off_single_listener:
  assumes "ipcListeners s = Suc 0"
  shows "effects (send_set [''discordRPC'' \<mapsto> JBool False]
             (send_set [''discordRPC'' \<mapsto> JBool True] s)) =
     effects s @
     [ConnectRPC,
      StoreSet (spread (storeConfig s) [''discordRPC'' \<mapsto> JBool True]),
      DropRPC,
      StoreSet (spread (spread (storeConfig s) [''discordRPC'' \<mapsto> JBool True])
                  [''discordRPC'' \<mapsto> JBool False])] \<and>
   get_prop (storeConfig (send_set [''discordRPC'' \<mapsto> JBool False]
                  (send_set [''discordRPC'' \<mapsto> JBool True] s))) ''discordRPC'' = JBool False"
  using assms
  by (simp add: send_set_def ipcListeners_ipc_set effects_ipc_set storeConfig_ipc_set
      get_prop_def spread_def)

text \<open>
  C7. \<open>set({discordRPC: true})\<close> followed by \<open>set({discordRPC: false})\<close> should
  connect once and then disconnect once. The code does not after the window has been
  created a second time. On macOS the window is closed (minimise-to-tray is off), the
  application stays alive with no window, and \<open>activate\<close> calls \<open>createWindow\<close>
  again, which adds a second listener to the channel \<open>set\<close>. The two commands then
  connect twice and disconnect twice; the persisted \<open>discordRPC\<close> still ends as
  \<open>false\<close>.
\<close>

theorem set_listeners_doubled_after_activate:
  "and_then (createWindow ''https://app.revolt.chat'' (startup Map.empty)) (\<lambda>s1.
     and_then (win_close
         \<lparr>argv = [''/Applications/Revolt.app/Contents/MacOS/Revolt''],
          processExecPath = ''/Applications/Revolt.app/Contents/MacOS/Revolt'',
          envAPPIMAGE = None, platform = ''darwin'', isPackaged = True\<rparr> s1) (\<lambda>s2.
     and_then (activate ''https://app.revolt.chat'' s2) (\<lambda>s3.
       Inr (effects s3, ipcListeners s3,
            rpc_calls (send_set [''discordRPC'' \<mapsto> JBool False]
                        (send_set [''discordRPC'' \<mapsto> JBool True] s3)),
            get_prop (storeConfig (send_set [''discordRPC'' \<mapsto> JBool False]
                        (send_set [''discordRPC'' \<mapsto> JBool True] s3))) ''discordRPC'')))) =
   Inr ([], 2, [ConnectRPC, ConnectRPC, DropRPC, DropRPC], JBool False)"
  by (simp add: createWindow_def getConfig_def buildMenu_def isVisible_def and_then_def Let_def
      startup_def win_close_def close_handler_def store_get_def get_prop_def
      window_all_closed_def activate_def send_set_def ipcListeners_ipc_set effects_ipc_set
      storeConfig_ipc_set rpc_calls_def spread_def)

text \<open>
  C10. Whenever the patch of a \<open>set\<close> command has a defined \<open>discordRPC\<close> field,
  connect (for a true value) or disconnect (for a false one) is called, whatever the
  persisted configuration holds: the call depends on the patch alone.
\<close>

theorem discordRPC_side_effect_unconditional:
  "arg ''discordRPC'' = Some v \<Longrightarrow> v \<noteq> JUndefined \<Longrightarrow>
   effects (ipc_set arg s) =
     effects s @
     [if truthy v then ConnectRPC else DropRPC, StoreSet (spread (storeConfig s) arg)]"
  by (simp add: effects_ipc_set get_prop_def)

text \<open>The integration is already enabled in the persisted configuration, and the patch
  enables it again: connect is called again.\<close>

theorem discordRPC_side_effect_unconditional_witness:
  "[''discordRPC'' \<mapsto> JBool True] ''discordRPC'' = Some (JBool True) \<and>
   JBool True \<noteq> JUndefined \<and>
   get_prop (storeConfig (startup [''discordRPC'' \<mapsto> JBool True])) ''discordRPC'' = JBool True \<and>
   effects (ipc_set [''discordRPC'' \<mapsto> JBool True]
              (startup [''discordRPC'' \<mapsto> JBool True])) =
     [ConnectRPC,
      StoreSet (spread [''discordRPC'' \<mapsto> JBool True] [''discordRPC'' \<mapsto> JBool True])]"
  using discordRPC_side_effect_unconditional
    [of "[''discordRPC'' \<mapsto> JBool True]" "JBool True"
        "startup [''discordRPC'' \<mapsto> JBool True]"]
  by (simp add: startup_def get_prop_def)

section \<open>Teardown and relaunch\<close>

text \<open>
  C8. When the last window has closed and \<open>shouldRelaunch\<close> is set, the teardown
  asks for a relaunch with the original arguments without the first, followed by
  \<open>--relaunch\<close>, and then quits; when the application is packaged and runs from an
  AppImage, the executable is that package and the self-extract flag stands first among
  the arguments (\<open>--relaunch\<close> is still last).
\<close>

theorem relaunch_spawns_with_preserved_arguments:
  "shouldRelaunch s \<Longrightarrow>
   effects (window_all_closed p s) =
     effects s @
     [AppRelaunch
        \<lparr>args = (if appimage p then [''--appimage-extract-and-run''] else []) @
                drop 1 (argv p) @ [''--relaunch''],
         execPath = (if appimage p then the (envAPPIMAGE p) else processExecPath p)\<rparr>,
      AppQuit]"
  by (simp add: window_all_closed_def relaunchOptions_def appimage_def emit_def Let_def
      split: option.split)

text \<open>A plain installation, then an AppImage.\<close>

theorem relaunch_spawns_with_preserved_arguments_witness:
  "shouldRelaunch ((startup Map.empty)\<lparr>shouldRelaunch := True\<rparr>) \<and>
   effects (window_all_closed
      \<lparr>argv = [''/opt/revolt/revolt'', ''--hidden''], processExecPath = ''/opt/revolt/revolt'',
        envAPPIMAGE = None, platform = ''linux'', isPackaged = True\<rparr>
      ((startup Map.empty)\<lparr>shouldRelaunch := True\<rparr>)) =
     [AppRelaunch \<lparr>args = [''--hidden'', ''--relaunch''], execPath = ''/opt/revolt/revolt''\<rparr>,
      AppQuit] \<and>
   effects (window_all_closed
      \<lparr>argv = [''/tmp/.mount_revolt/revolt'', ''--hidden''],
        processExecPath = ''/tmp/.mount_revolt/revolt'',
        envAPPIMAGE = Some ''/home/u/Revolt.AppImage'', platform = ''linux'', isPackaged = True\<rparr>
      ((startup Map.empty)\<lparr>shouldRelaunch := True\<rparr>)) =
     [AppRelaunch \<lparr>args = [''--appimage-extract-and-run'', ''--hidden'', ''--relaunch''],
                   execPath = ''/home/u/Revolt.AppImage''\<rparr>,
      AppQuit]"
  using relaunch_spawns_with_preserved_arguments
      [of "(startup Map.empty)\<lparr>shouldRelaunch := True\<rparr>"
          "\<lparr>argv = [''/opt/revolt/revolt'', ''--hidden''], processExecPath = ''/opt/revolt/revolt'',
            envAPPIMAGE = None, platform = ''linux'', isPackaged = True\<rparr>"]
    relaunch_spawns_with_preserved_arguments
      [of "(startup Map.empty)\<lparr>shouldRelaunch := True\<rparr>"
          "\<lparr>argv = [''/tmp/.mount_revolt/revolt'', ''--hidden''],
            processExecPath = ''/tmp/.mount_revolt/revolt'',
            envAPPIMAGE = Some ''/home/u/Revolt.AppImage'', platform = ''linux'', isPackaged = True\<rparr>"]
  by (simp add: startup_def appimage_def)

section \<open>Navigation policy\<close>

lemma scheme_of_prefix:
  assumes "CHR '':'' \<notin> set p"
  shows "url_scheme (p @ CHR '':'' # r) = Some p"
proof -
  have "takeWhile (\<lambda>c. c \<noteq> CHR '':'') (p @ CHR '':'' # r) = p"
    using assms by (induction p) auto
  then show ?thesis by (simp add: url_scheme_def)
qed

lemma split_at_colon:
  "CHR '':'' \<in> set u \<Longrightarrow>
   \<exists>r. u = takeWhile (\<lambda>c. c \<noteq> CHR '':'') u @ CHR '':'' # r"
  by (induction u) auto

text \<open>A test \<open>url.startsWith("p:")\<close> with no colon in \<open>p\<close> holds exactly when
  \<open>p\<close> is the text before the first colon of the URL.\<close>

lemma startsWith_scheme:
  assumes "CHR '':'' \<notin> set p"
  shows "startsWith u (p @ '':'') \<longleftrightarrow> url_scheme u = Some p"
proof
  assume "startsWith u (p @ '':'')"
  then have "take (length (p @ '':'')) u = p @ '':''"
    unfolding startsWith_def .
  then have "u = (p @ '':'') @ drop (length (p @ '':'')) u"
    using append_take_drop_id [of "length (p @ '':'')" u] by simp
  then have "u = p @ CHR '':'' # drop (length (p @ '':'')) u"
    by simp
  then show "url_scheme u = Some p"
    using scheme_of_prefix [OF assms] by metis
next
  assume s: "url_scheme u = Some p"
  then have mem: "CHR '':'' \<in> set u"
    unfolding url_scheme_def by (simp split: if_splits)
  with s have p: "takeWhile (\<lambda>c. c \<noteq> CHR '':'') u = p"
    unfolding url_scheme_def by simp
  from split_at_colon [OF mem] p obtain r where "u = p @ CHR '':'' # r"
    by auto
  then show "startsWith u (p @ '':'')"
    by (simp add: startsWith_def)
qed

lemma opens_iff_scheme:
  "(startsWith url ''http:'' \<or> startsWith url ''https:'' \<or> startsWith url ''mailto:'') \<longleftrightarrow>
   url_scheme url \<in> {Some ''http'', Some ''https'', Some ''mailto''}"
proof -
  have a: "startsWith url ''http:'' \<longleftrightarrow> url_scheme url = Some ''http''"
    using startsWith_scheme [of "''http''" url] by simp
  have b: "startsWith url ''https:'' \<longleftrightarrow> url_scheme url = Some ''https''"
    using startsWith_scheme [of "''https''" url] by simp
  have c: "startsWith url ''mailto:'' \<longleftrightarrow> url_scheme url = Some ''mailto''"
    using startsWith_scheme [of "''mailto''" url] by simp
  show ?thesis unfolding a b c by blast
qed

lemma effects_emit: "effects (emit e s) = effects s @ [e]"
  by (simp add: emit_def)

lemma effects_foldl_open:
  "effects (foldl (\<lambda>t url. emit (OpenExternal url) t) s us) = effects s @ map OpenExternal us"
proof (induction us arbitrary: s)
  case Nil
  show ?case by simp
next
  case (Cons u us)
  show ?case by (simp add: Cons.IH effects_emit)
qed

lemma effects_run_immediates:
  "effects (run_immediates s) = effects s @ map OpenExternal (immediates s)"
  unfolding run_immediates_def effects_foldl_open by simp

text \<open>
  C3. A request to open a new window is always answered with \<open>deny\<close>, and nothing is
  opened while the handler runs. On the next turn of the event loop the URL is opened
  externally, once, exactly when its scheme is \<open>http\<close>, \<open>https\<close> or
  \<open>mailto\<close>; for any other scheme nothing is opened.
\<close>

theorem window_open_denied_external_iff_scheme:
  "fst (windowOpenHandler url s) = Deny \<and>
   mainWindow (snd (windowOpenHandler url s)) = mainWindow s \<and>
   effects (snd (windowOpenHandler url s)) = effects s \<and>
   effects (run_immediates (snd (windowOpenHandler url s))) =
     effects (run_immediates s) @
     (if url_scheme url \<in> {Some ''http'', Some ''https'', Some ''mailto''}
      then [OpenExternal url] else [])"
  using opens_iff_scheme [of url]
  by (simp add: windowOpenHandler_def effects_run_immediates)

text \<open>The two requests of the spec's examples.\<close>

lemma window_open_examples:
  "effects (run_immediates (snd (windowOpenHandler ''https://example.com'' (startup Map.empty)))) =
     [OpenExternal ''https://example.com''] \<and>
   effects (run_immediates (snd (windowOpenHandler ''ftp://example.com'' (startup Map.empty)))) = []"
  by (simp add: windowOpenHandler_def startsWith_def run_immediates_def startup_def emit_def)




section \<open>The window while it lives\<close>

lemma win_show_alive:
  "\<not> destroyed (mainWindow s) \<Longrightarrow>
   win_show s =
     Inr (s\<lparr>mainWindow := (mainWindow s)\<lparr>visible := True, focused := True\<rparr>,
            trayMenu := menuTemplate True\<rparr>)"
  by (simp add: win_show_def buildMenu_def isVisible_def and_then_def)

lemma win_hide_alive:
  "\<not> destroyed (mainWindow s) \<Longrightarrow>
   win_hide s =
     Inr (s\<lparr>mainWindow := (mainWindow s)\<lparr>visible := False, focused := False\<rparr>,
            trayMenu := menuTemplate False\<rparr>)"
  by (simp add: win_hide_def buildMenu_def isVisible_def and_then_def)

lemma win_focus_alive:
  "\<not> destroyed (mainWindow s) \<Longrightarrow>
   win_focus s = Inr (s\<lparr>mainWindow := (mainWindow s)\<lparr>focused := True\<rparr>\<rparr>)"
  by (simp add: win_focus_def)

lemma tray_click_alive:
  "\<not> destroyed (mainWindow s) \<Longrightarrow>
   tray_click s =
     (if visible (mainWindow s)
      then (if focused (mainWindow s) then win_hide s else win_focus s)
      else win_show s)"
  by (simp add: tray_click_def isVisible_def isFocused_def and_then_def)

lemma toggle_click_alive:
  "\<not> destroyed (mainWindow s) \<Longrightarrow>
   toggle_click s = (if visible (mainWindow s) then win_hide s else win_show s)"
  by (simp add: toggle_click_def isVisible_def and_then_def)

lemma createWindow_result:
  "createWindow b s =
     Inr (s\<lparr>initialConfig := storeConfig s,
            mainWindow := \<lparr>visible = True, focused = True, destroyed = False,
                           frameOption = get_prop (storeConfig s) ''frame'', loadedURL = b\<rparr>,
            ipcListeners := Suc (ipcListeners s),
            trayMenu := menuTemplate True\<rparr>)"
  by (simp add: createWindow_def getConfig_def buildMenu_def isVisible_def and_then_def Let_def)

text \<open>
  C4. A click on the tray icon shows a hidden window, hides a window that is visible and
  focused, and focuses a window that is visible and not focused, which stays visible.
\<close>

theorem tray_click_three_way:
  "\<not> destroyed (mainWindow s) \<Longrightarrow>
   tray_click s =
     (if \<not> visible (mainWindow s) then win_show s
      else if focused (mainWindow s) then win_hide s
      else win_focus s) \<and>
   (\<exists>s'. tray_click s = Inr s' \<and> \<not> destroyed (mainWindow s') \<and>
      (if \<not> visible (mainWindow s) then visible (mainWindow s')
       else if focused (mainWindow s) then \<not> visible (mainWindow s')
       else visible (mainWindow s') \<and> focused (mainWindow s')))"
  by (simp add: tray_click_alive win_show_alive win_hide_alive win_focus_alive)

text \<open>A visible window without focus: the click focuses it and changes nothing else.\<close>

theorem tray_click_three_way_witness:
  "\<not> destroyed (mainWindow ((startup Map.empty)\<lparr>mainWindow :=
       \<lparr>visible = True, focused = False, destroyed = False, frameOption = JUndefined,
        loadedURL = []\<rparr>\<rparr>)) \<and>
   tray_click ((startup Map.empty)\<lparr>mainWindow :=
       \<lparr>visible = True, focused = False, destroyed = False, frameOption = JUndefined,
        loadedURL = []\<rparr>\<rparr>) =
     Inr ((startup Map.empty)\<lparr>mainWindow :=
       \<lparr>visible = True, focused = True, destroyed = False, frameOption = JUndefined,
        loadedURL = []\<rparr>\<rparr>)"
  using tray_click_three_way
      [of "(startup Map.empty)\<lparr>mainWindow :=
       \<lparr>visible = True, focused = False, destroyed = False, frameOption = JUndefined,
        loadedURL = []\<rparr>\<rparr>"]
  by (simp add: startup_def win_focus_def)

section \<open>Close requests\<close>

lemma close_handler_alive:
  "\<not> destroyed (mainWindow s) \<Longrightarrow>
   close_handler s =
     (if \<not> shouldQuit s \<and> \<not> shouldRelaunch s \<and> truthy (get_prop (storeConfig s) ''minimiseToTray'')
      then Inr (True, s\<lparr>mainWindow := (mainWindow s)\<lparr>visible := False, focused := False\<rparr>,
                        trayMenu := menuTemplate False\<rparr>)
      else Inr (False, s))"
  by (simp add: close_handler_def store_get_def win_hide_alive and_then_def)

lemma win_close_alive:
  "\<not> destroyed (mainWindow s) \<Longrightarrow>
   win_close p s =
     (if \<not> shouldQuit s \<and> \<not> shouldRelaunch s \<and> truthy (get_prop (storeConfig s) ''minimiseToTray'')
      then Inr (s\<lparr>mainWindow := (mainWindow s)\<lparr>visible := False, focused := False\<rparr>,
                  trayMenu := menuTemplate False\<rparr>)
      else Inr (window_all_closed p
             (s\<lparr>mainWindow := (mainWindow s)\<lparr>visible := False, focused := False,
                   destroyed := True\<rparr>\<rparr>)))"
  by (simp add: win_close_def close_handler_alive and_then_def)

lemma mainWindow_window_all_closed: "mainWindow (window_all_closed p s) = mainWindow s"
  by (simp add: window_all_closed_def emit_def)

lemma initialConfig_window_all_closed: "initialConfig (window_all_closed p s) = initialConfig s"
  by (simp add: window_all_closed_def emit_def)

text \<open>
  C2. A close request on the living window is turned into a hide exactly when
  minimise-to-tray is enabled in the persisted configuration and neither
  \<open>shouldQuit\<close> nor \<open>shouldRelaunch\<close> is set: the window is then hidden, not
  destroyed, nothing is called outside, and a later \<open>show()\<close> makes it visible again.
  In every other case, so whenever \<open>shouldRelaunch\<close> is set, the window is destroyed.
\<close>

theorem close_intercepted_iff_minimise_to_tray:
  "\<not> destroyed (mainWindow s) \<Longrightarrow>
   \<exists>s'. win_close p s = Inr s' \<and>
     (if truthy (get_prop (storeConfig s) ''minimiseToTray'') \<and> \<not> shouldQuit s \<and> \<not> shouldRelaunch s
      then \<not> destroyed (mainWindow s') \<and> \<not> visible (mainWindow s') \<and>
           effects s' = effects s \<and>
           (\<exists>s''. win_show s' = Inr s'' \<and> visible (mainWindow s'') \<and>
                  \<not> destroyed (mainWindow s''))
      else destroyed (mainWindow s'))"
  by (simp add: win_close_alive win_show_alive mainWindow_window_all_closed)

text \<open>Minimise-to-tray is enabled: a close hides the window; the same close with
  \<open>shouldRelaunch\<close> set destroys it.\<close>

theorem close_intercepted_iff_minimise_to_tray_witness:
  "\<not> destroyed (mainWindow ((startup [''minimiseToTray'' \<mapsto> JBool True])\<lparr>mainWindow :=
       \<lparr>visible = True, focused = True, destroyed = False, frameOption = JUndefined,
        loadedURL = []\<rparr>\<rparr>)) \<and>
   (\<exists>s'. win_close
       \<lparr>argv = [''/opt/revolt/revolt''], processExecPath = ''/opt/revolt/revolt'',
        envAPPIMAGE = None, platform = ''linux'', isPackaged = True\<rparr>
       ((startup [''minimiseToTray'' \<mapsto> JBool True])\<lparr>mainWindow :=
       \<lparr>visible = True, focused = True, destroyed = False, frameOption = JUndefined,
        loadedURL = []\<rparr>\<rparr>) = Inr s' \<and> \<not> destroyed (mainWindow s') \<and> \<not> visible (mainWindow s') \<and>
       effects s' = []) \<and>
   (\<exists>s'. win_close
       \<lparr>argv = [''/opt/revolt/revolt''], processExecPath = ''/opt/revolt/revolt'',
        envAPPIMAGE = None, platform = ''linux'', isPackaged = True\<rparr>
       ((startup [''minimiseToTray'' \<mapsto> JBool True])\<lparr>shouldRelaunch := True, mainWindow :=
       \<lparr>visible = True, focused = True, destroyed = False, frameOption = JUndefined,
        loadedURL = []\<rparr>\<rparr>) = Inr s' \<and> destroyed (mainWindow s'))"
  using close_intercepted_iff_minimise_to_tray
      [of "(startup [''minimiseToTray'' \<mapsto> JBool True])\<lparr>mainWindow :=
       \<lparr>visible = True, focused = True, destroyed = False, frameOption = JUndefined,
        loadedURL = []\<rparr>\<rparr>"
       "\<lparr>argv = [''/opt/revolt/revolt''], processExecPath = ''/opt/revolt/revolt'',
        envAPPIMAGE = None, platform = ''linux'', isPackaged = True\<rparr>"]
    close_intercepted_iff_minimise_to_tray
      [of "(startup [''minimiseToTray'' \<mapsto> JBool True])\<lparr>shouldRelaunch := True, mainWindow :=
       \<lparr>visible = True, focused = True, destroyed = False, frameOption = JUndefined,
        loadedURL = []\<rparr>\<rparr>"
       "\<lparr>argv = [''/opt/revolt/revolt''], processExecPath = ''/opt/revolt/revolt'',
        envAPPIMAGE = None, platform = ''linux'', isPackaged = True\<rparr>"]
  by (auto simp: startup_def get_prop_def)

text \<open>The \<open>relaunch\<close> command sets the flag before it closes the window, so the
  window is destroyed and the teardown relaunches, whatever the configuration says.\<close>

lemma relaunch_command_destroys_and_relaunches:
  "\<not> destroyed (mainWindow s) \<Longrightarrow>
   \<exists>s'. ipc_relaunch p s = Inr s' \<and> destroyed (mainWindow s') \<and>
        effects s' = effects s @ [AppRelaunch (relaunchOptions p), AppQuit]"
  by (simp add: ipc_relaunch_def win_close_alive window_all_closed_def emit_def)

text \<open>
  C9. The close listener reads the store when the close event fires. After the window
  has been created, a \<open>set\<close> command whose patch carries \<open>minimiseToTray\<close>
  decides the very next close request: the window is destroyed exactly when the new
  value is falsy or a flag is set, while the configuration captured at creation still
  holds the old settings.
\<close>

theorem close_reads_store_at_close_time:
  "arg ''minimiseToTray'' = Some v \<Longrightarrow>
   \<exists>s1 s'. createWindow b s0 = Inr s1 \<and> win_close p (ipc_set arg s1) = Inr s' \<and>
     destroyed (mainWindow s') = (\<not> (truthy v \<and> \<not> shouldQuit s0 \<and> \<not> shouldRelaunch s0)) \<and>
     initialConfig s' = storeConfig s0"
  by (simp add: createWindow_result win_close_alive ipc_set_keeps_rest storeConfig_ipc_set
      get_prop_def spread_def mainWindow_window_all_closed initialConfig_window_all_closed)

text \<open>The window is created with minimise-to-tray disabled; the setting is then
  enabled; the next close hides the window, although the captured configuration still
  says disabled.\<close>

theorem close_reads_store_at_close_time_witness:
  "[''minimiseToTray'' \<mapsto> JBool True] ''minimiseToTray'' = Some (JBool True) \<and>
   (\<exists>s1 s'. createWindow ''https://app.revolt.chat''
               (startup [''minimiseToTray'' \<mapsto> JBool False]) = Inr s1 \<and>
      win_close
        \<lparr>argv = [''/opt/revolt/revolt''], processExecPath = ''/opt/revolt/revolt'',
          envAPPIMAGE = None, platform = ''linux'', isPackaged = True\<rparr>
        (ipc_set [''minimiseToTray'' \<mapsto> JBool True] s1) = Inr s' \<and>
      \<not> destroyed (mainWindow s') \<and>
      get_prop (initialConfig s') ''minimiseToTray'' = JBool False)"
  using close_reads_store_at_close_time
    [of "[''minimiseToTray'' \<mapsto> JBool True]" "JBool True" "''https://app.revolt.chat''"
        "startup [''minimiseToTray'' \<mapsto> JBool False]"
        "\<lparr>argv = [''/opt/revolt/revolt''], processExecPath = ''/opt/revolt/revolt'',
          envAPPIMAGE = None, platform = ''linux'', isPackaged = True\<rparr>"]
  by (auto simp: startup_def get_prop_def)

section \<open>The tray menu\<close>

lemma toggle_labels_menuTemplate:
  "toggle_labels (s\<lparr>trayMenu := menuTemplate v\<rparr>) = [if v then ''Hide Revolt'' else ''Show Revolt'']"
  by (simp add: toggle_labels_def menuTemplate_def)





text \<open>A run: hidden from the menu, then shown again from the tray icon.\<close>

lemma tray_label_example:
  "and_then (createWindow ''https://app.revolt.chat'' (startup Map.empty))
     (\<lambda>s. and_then (run_transitions [ToggleItemClick] s) (\<lambda>s'. Inr (toggle_labels s'))) =
     Inr [''Show Revolt''] \<and>
   and_then (createWindow ''https://app.revolt.chat'' (startup Map.empty))
     (\<lambda>s. and_then (run_transitions [ToggleItemClick, TrayClick] s)
        (\<lambda>s'. Inr (toggle_labels s'))) =
     Inr [''Hide Revolt'']"
  by (simp add: createWindow_result and_then_def toggle_click_alive tray_click_alive
      win_hide_alive win_show_alive toggle_labels_menuTemplate)

end
